theory Spec2Isabelle
  imports Main
begin

section \<open>The house price predictor (app.py): the model of the code\<close>

subsection \<open>Data model\<close>

text \<open>
  The values the Home tab collects (app.py, lines 176-189). The number inputs are called
  with integer bounds and so return Python integers; every select box returns one of the
  strings of its option list; the location is free text.
\<close>

record raw_input =
  area :: int
  bedrooms :: int
  bathrooms :: int
  stories :: int
  parking :: int
  mainroad :: string
  guestroom :: string
  basement :: string
  hotwaterheating :: string
  airconditioning :: string
  prefarea :: string
  furnishingstatus :: string
  location :: string

text \<open>
  The option list of the furnishing select box (line 188): the only strings the field
  \<open>furnishingstatus\<close> can hold when the form is read.
\<close>

definition furnishing_options :: "string list" where
  "furnishing_options = [''Furnished'', ''Semi-Furnished'', ''Unfurnished'']"

text \<open>
  A Python dictionary, and the single-row data frame built from it, keep their keys in
  insertion order: both are association lists from column name to value. All values of
  the row are integers.
\<close>

type_synonym frame = "(string \<times> int) list"

definition columns :: "frame \<Rightarrow> string list" where
  "columns X = map fst X"

datatype err = KeyError | AttributeError | JSONDecodeError | OSError

subsection \<open>Building the row\<close>

text \<open>Line 191: \<^verbatim>\<open>yn = lambda v: 1 if v=="Yes" else 0\<close>.\<close>

definition yn :: "string \<Rightarrow> int" where
  "yn v = (if v = ''Yes'' then 1 else 0)"

text \<open>Lines 192-197: the dictionary literal \<open>base_vals\<close>, in the order it is written.\<close>

definition base_vals :: "raw_input \<Rightarrow> frame" where
  "base_vals r =
     [(''area'', area r), (''bedrooms'', bedrooms r), (''bathrooms'', bathrooms r),
      (''stories'', stories r), (''mainroad'', yn (mainroad r)),
      (''guestroom'', yn (guestroom r)), (''basement'', yn (basement r)),
      (''hotwaterheating'', yn (hotwaterheating r)),
      (''airconditioning'', yn (airconditioning r)), (''parking'', parking r),
      (''prefarea'', yn (prefarea r))]"

text \<open>
  Storing a key in a dictionary: an existing key keeps its position and takes the new
  value, a new key goes to the end. \<^verbatim>\<open>{**d, k: v}\<close> is this on a copy of \<open>d\<close>.
\<close>

fun dict_set :: "frame \<Rightarrow> string \<Rightarrow> int \<Rightarrow> frame" where
  "dict_set [] k v = [(k, v)]"
| "dict_set ((k', v') # d) k v =
     (if k' = k then (k, v) # d else (k', v') # dict_set d k v)"

text \<open>Line 201: the dictionary \<open>fs_map\<close>; a lookup of a missing key raises KeyError.\<close>

definition fs_map :: "(string \<times> int) list" where
  "fs_map = [(''Furnished'', 0), (''Semi-Furnished'', 1), (''Unfurnished'', 2)]"

definition dict_get :: "(string \<times> int) list \<Rightarrow> string \<Rightarrow> err + int" where
  "dict_get d k = (case map_of d k of None \<Rightarrow> Inl KeyError | Some v \<Rightarrow> Inr v)"

text \<open>
  Line 200: \<^verbatim>\<open>expected_features and expected_features == len(base_vals)+1\<close>.
  \<open>expected_features\<close> is the model's \<open>n_features_in_\<close> or None (line 166); None and 0
  are both false in a Boolean position.
\<close>

definition label_mode :: "int option \<Rightarrow> frame \<Rightarrow> bool" where
  "label_mode expected_features bv =
     (case expected_features of
        None \<Rightarrow> False
      | Some n \<Rightarrow> n \<noteq> 0 \<and> n = int (length bv) + 1)"

text \<open>Lines 200-208: the first conditional of \<open>build_features_df\<close>, giving \<open>X_local\<close>.\<close>

definition build_vals :: "int option \<Rightarrow> raw_input \<Rightarrow> err + frame" where
  "build_vals expected_features r =
     (if label_mode expected_features (base_vals r) then
        (case dict_get fs_map (furnishingstatus r) of
           Inl e \<Rightarrow> Inl e
         | Inr code \<Rightarrow> Inr (dict_set (base_vals r) ''furnishingstatus'' code))
      else
        (let furnished = (if furnishingstatus r = ''Furnished'' then 1 else 0);
             semi = (if furnishingstatus r = ''Semi-Furnished'' then 1 else 0)
         in Inr (dict_set (dict_set (base_vals r) ''furnishingstatus_furnished'' furnished)
                   ''furnishingstatus_semi-furnished'' semi)))"

text \<open>
  Lines 210-212: every expected name that is not yet a column is added as a new last
  column holding 0.
\<close>

fun add_missing :: "string list \<Rightarrow> frame \<Rightarrow> frame" where
  "add_missing [] X = X"
| "add_missing (c # cs) X =
     add_missing cs (if c \<notin> set (columns X) then X @ [(c, 0)] else X)"

text \<open>
  Line 213: selecting a list of labels from a data frame. Each label gives the columns
  that carry it, in the order of the list; a label that no column carries raises
  KeyError.
\<close>

fun select_columns :: "frame \<Rightarrow> string list \<Rightarrow> err + frame" where
  "select_columns X [] = Inr []"
| "select_columns X (c # cs) =
     (case filter (\<lambda>p. fst p = c) X of
        [] \<Rightarrow> Inl KeyError
      | ps \<Rightarrow> (case select_columns X cs of
                 Inl e \<Rightarrow> Inl e
               | Inr Y \<Rightarrow> Inr (ps @ Y)))"

text \<open>Lines 209-213: the second conditional, on \<open>feature_names_in\<close> (line 167).\<close>

definition align_names :: "string list option \<Rightarrow> frame \<Rightarrow> err + frame" where
  "align_names feature_names_in X =
     (case feature_names_in of
        None \<Rightarrow> Inr X
      | Some names \<Rightarrow> select_columns (add_missing names X) names)"

text \<open>Lines 199-214: \<open>build_features_df\<close>.\<close>

definition build_features_df ::
  "int option \<Rightarrow> string list option \<Rightarrow> raw_input \<Rightarrow> err + frame" where
  "build_features_df expected_features feature_names_in r =
     (case build_vals expected_features r of
        Inl e \<Rightarrow> Inl e
      | Inr X \<Rightarrow> align_names feature_names_in X)"

subsection \<open>Session state and the Predict button\<close>

text \<open>
  The session state (lines 18-27), the feedback file on disk, and what the page has
  shown to the user so far. Each call of \<^verbatim>\<open>st.success\<close>, \<^verbatim>\<open>st.warning\<close> and
  \<^verbatim>\<open>st.error\<close> in the two handlers below is one constructor of \<open>notice\<close>, carrying the
  values its message interpolates.
\<close>

record history_entry =
  Location :: string
  Area :: int
  Bedrooms :: int
  Bathrooms :: int
  Stories :: int
  Parking :: int
  Predicted_Price :: string

datatype json =
  JNull | JBool bool | JInt int | JStr string | JArr "json list" | JObj "(string \<times> json) list"

text \<open>
  An existing \<^verbatim>\<open>feedback.json\<close>. It may be a path that \<^verbatim>\<open>open\<close> refuses to open for
  reading (a directory, a file without read permission). Otherwise it is given by what
  \<^verbatim>\<open>json.load\<close> makes of its contents: a text it rejects, or the value it returns.
  \<^verbatim>\<open>json.dump\<close> followed by \<^verbatim>\<open>json.load\<close> gives back a value made of lists, string-keyed
  dictionaries, strings and integers unchanged, so a readable file is identified with the
  value it holds. Numbers with a fraction are left out of \<open>json\<close>: the application
  writes none, and nothing below looks inside a stored record.
\<close>

datatype feedback_file = Unopenable | Unparsable | Parsed json

datatype notice =
  PredictSuccess string string
| PredictError string
| FeedbackThanks
| FeedbackWarning

record world =
  logged_in :: bool
  page :: string
  history :: "history_entry list"
  dark_mode :: bool
  feedback_submitted :: bool
  feedback_json :: "feedback_file option"
  shown :: "notice list"

text \<open>Python's \<^verbatim>\<open>a or b\<close> on strings: the empty string is false.\<close>

definition py_or :: "string \<Rightarrow> string \<Rightarrow> string" where
  "py_or a b = (if a = [] then b else a)"

text \<open>
  Lines 218-227, the body of \<^verbatim>\<open>if st.button(...)\<close>. The model is opaque: \<open>predict\<close>
  stands for \<^verbatim>\<open>model.predict(X)[0]\<close> and \<open>fmt\<close> for the format \<^verbatim>\<open>{pred:,.0f}\<close> with its
  currency prefix; either may raise, which is the value \<open>Inl\<close> with the text of the
  exception, and \<^verbatim>\<open>except Exception as e\<close> catches both.
\<close>

definition predict_clicked ::
  "(frame \<Rightarrow> string + 'p) \<Rightarrow> ('p \<Rightarrow> string + string) \<Rightarrow> raw_input \<Rightarrow> frame \<Rightarrow> world \<Rightarrow> world"
where
  "predict_clicked predict fmt r X w =
     (case predict X of
        Inl e \<Rightarrow> w\<lparr>shown := shown w @ [PredictError e]\<rparr>
      | Inr pred \<Rightarrow>
          (case fmt pred of
             Inl e \<Rightarrow> w\<lparr>shown := shown w @ [PredictError e]\<rparr>
           | Inr price \<Rightarrow>
               w\<lparr>shown := shown w @ [PredictSuccess (py_or (location r) ''your city'') price],
                 history := history w @
                   [\<lparr>Location = py_or (location r) ''Unknown'', Area = area r,
                     Bedrooms = bedrooms r, Bathrooms = bathrooms r, Stories = stories r,
                     Parking = parking r, Predicted_Price = price\<rparr>]\<rparr>))"

text \<open>
  Lines 216-227: the row is built on every run of the page, outside the \<^verbatim>\<open>try\<close>; an
  exception there ends the run. \<open>clicked\<close> is the value of the button.
\<close>

definition home_tab ::
  "(frame \<Rightarrow> string + 'p) \<Rightarrow> ('p \<Rightarrow> string + string) \<Rightarrow> int option \<Rightarrow> string list option \<Rightarrow>
   raw_input \<Rightarrow> bool \<Rightarrow> world \<Rightarrow> err + world"
where
  "home_tab predict fmt expected_features feature_names_in r clicked w =
     (case build_features_df expected_features feature_names_in r of
        Inl e \<Rightarrow> Inl e
      | Inr X \<Rightarrow> Inr (if clicked then predict_clicked predict fmt r X w else w))"

subsection \<open>The feedback store\<close>

text \<open>
  Line 34: \<^verbatim>\<open>open("feedback.json", "r")\<close> raises OSError on a path it cannot open, and
  gives the open file otherwise.
\<close>

definition open_read :: "feedback_file \<Rightarrow> err + feedback_file" where
  "open_read f = (case f of Unopenable \<Rightarrow> Inl OSError | _ \<Rightarrow> Inr f)"

text \<open>
  Line 36: \<^verbatim>\<open>json.load\<close> reads the open file and raises on a text that is not JSON. It
  is only ever given a file that \<open>open_read\<close> has opened.
\<close>

definition json_load :: "feedback_file \<Rightarrow> err + json" where
  "json_load f =
     (case f of
        Unopenable \<Rightarrow> Inl OSError
      | Unparsable \<Rightarrow> Inl JSONDecodeError
      | Parsed v \<Rightarrow> Inr v)"

text \<open>
  Lines 32-39: \<open>load_feedback\<close>. The argument is the file, None when
  \<^verbatim>\<open>os.path.exists\<close> is false. The \<^verbatim>\<open>with open\<close> of line 34 stands outside the
  \<^verbatim>\<open>try\<close> of lines 35-38, so an exception of \<^verbatim>\<open>open\<close> leaves the function; the bare
  \<^verbatim>\<open>except\<close> turns any exception of the parse into the empty list.
\<close>

definition load_feedback :: "feedback_file option \<Rightarrow> err + json" where
  "load_feedback fs =
     (case fs of
        Some f \<Rightarrow>
          (case open_read f of
             Inl e \<Rightarrow> Inl e
           | Inr opened \<Rightarrow>
               (case json_load opened of Inr v \<Rightarrow> Inr v | Inl e \<Rightarrow> Inr (JArr [])))
      | None \<Rightarrow> Inr (JArr []))"

text \<open>Lines 41-43: \<open>save_feedback\<close> overwrites the file; the result is the new file.\<close>

definition save_feedback :: "json \<Rightarrow> feedback_file option" where
  "save_feedback feedback_list = Some (Parsed feedback_list)"

text \<open>
  \<^verbatim>\<open>str.strip()\<close> removes leading and trailing whitespace. A \<open>char\<close> stands for the code
  point of the same number; these are the code points below 256 for which
  \<^verbatim>\<open>str.isspace\<close> holds.
\<close>

definition py_isspace :: "char \<Rightarrow> bool" where
  "py_isspace c = ((of_char c :: nat) \<in> {9, 10, 11, 12, 13, 28, 29, 30, 31, 32, 133, 160})"

definition strip :: "string \<Rightarrow> string" where
  "strip s = rev (dropWhile py_isspace (rev (dropWhile py_isspace s)))"

text \<open>The method \<^verbatim>\<open>append\<close> exists on lists only.\<close>

fun list_append :: "json \<Rightarrow> json \<Rightarrow> err + json" where
  "list_append (JArr xs) x = Inr (JArr (xs @ [x]))"
| "list_append _ x = Inl AttributeError"

text \<open>
  Lines 322-327: the dictionary \<open>new_feedback\<close>; \<open>now\<close> is the formatted current time.
\<close>

definition new_feedback :: "string \<Rightarrow> int \<Rightarrow> string \<Rightarrow> string \<Rightarrow> json" where
  "new_feedback name rating feedback now =
     JObj [(''name'', JStr (if name \<noteq> [] then name else ''Anonymous'')),
           (''rating'', JInt rating),
           (''feedback'', JStr feedback),
           (''date'', JStr now)]"

text \<open>Lines 316-335: the body of the feedback form, \<open>submitted\<close> being its button.\<close>

definition feedback_form ::
  "string \<Rightarrow> int \<Rightarrow> string \<Rightarrow> bool \<Rightarrow> string \<Rightarrow> world \<Rightarrow> err + world" where
  "feedback_form name rating feedback submitted now w =
     (if submitted then
        (if strip feedback \<noteq> [] then
           (case load_feedback (feedback_json w) of
              Inl e \<Rightarrow> Inl e
            | Inr feedback_list \<Rightarrow>
                (case list_append feedback_list (new_feedback name rating feedback now) of
                   Inl e \<Rightarrow> Inl e
                 | Inr feedback_list' \<Rightarrow>
                     Inr (w\<lparr>feedback_json := save_feedback feedback_list',
                            feedback_submitted := True,
                            shown := shown w @ [FeedbackThanks]\<rparr>)))
         else Inr (w\<lparr>shown := shown w @ [FeedbackWarning]\<rparr>))
      else Inr w)"

subsection \<open>Example inputs\<close>

text \<open>A form as a user may fill it in: the default numbers, some boxes changed.\<close>

definition r0 :: raw_input where
  "r0 = \<lparr>area = 1500, bedrooms = 3, bathrooms = 2, stories = 2, parking = 1,
     mainroad = ''Yes'', guestroom = ''No'', basement = ''Yes'', hotwaterheating = ''No'',
     airconditioning = ''Yes'', prefarea = ''No'', furnishingstatus = ''Semi-Furnished'',
     location = ''Lahore''\<rparr>"

text \<open>A fresh session (lines 18-27) after the welcome page, with no feedback file yet.\<close>

definition w0 :: world where
  "w0 = \<lparr>logged_in = True, page = ''App'', history = [], dark_mode = False,
     feedback_submitted = False, feedback_json = None, shown = []\<rparr>"

section \<open>Properties of the feature aligner\<close>

subsection \<open>The row before alignment\<close>

lemma columns_append [simp]: "columns (X @ Y) = columns X @ columns Y"
  by (simp add: columns_def)

lemma label_mode_iff: "label_mode ef (base_vals r) \<longleftrightarrow> ef = Some 12"
  by (auto simp: label_mode_def base_vals_def split: option.splits)

lemma base_vals_columns:
  "columns (base_vals r) =
     [''area'', ''bedrooms'', ''bathrooms'', ''stories'', ''mainroad'', ''guestroom'',
      ''basement'', ''hotwaterheating'', ''airconditioning'', ''parking'', ''prefarea'']"
  by (simp add: base_vals_def columns_def)




lemma fs_map_options:
  "furnishingstatus r \<in> set furnishing_options \<Longrightarrow>
   \<exists>code. dict_get fs_map (furnishingstatus r) = Inr code"
  by (auto simp: furnishing_options_def dict_get_def fs_map_def)

text \<open>Neither new key is a key of \<open>base_vals\<close>, so both branches append.\<close>

lemma build_vals_label:
  "label_mode ef (base_vals r) \<Longrightarrow>
   build_vals ef r =
     (case dict_get fs_map (furnishingstatus r) of
        Inl e \<Rightarrow> Inl e
      | Inr code \<Rightarrow> Inr (base_vals r @ [(''furnishingstatus'', code)]))"
  by (simp add: build_vals_def) (simp add: base_vals_def split: sum.splits)

lemma build_vals_onehot:
  "\<not> label_mode ef (base_vals r) \<Longrightarrow>
   build_vals ef r =
     Inr (base_vals r @
          [(''furnishingstatus_furnished'', if furnishingstatus r = ''Furnished'' then 1 else 0),
           (''furnishingstatus_semi-furnished'',
            if furnishingstatus r = ''Semi-Furnished'' then 1 else 0)])"
  by (simp add: build_vals_def) (simp add: base_vals_def)

lemma build_vals_distinct: "build_vals ef r = Inr X \<Longrightarrow> distinct (columns X)"
proof (cases "label_mode ef (base_vals r)")
  case True
  assume "build_vals ef r = Inr X"
  with True obtain code where "X = base_vals r @ [(''furnishingstatus'', code)]"
    by (auto simp: build_vals_label split: sum.splits)
  then show ?thesis by (simp add: base_vals_def columns_def)
next
  case False
  assume "build_vals ef r = Inr X"
  with False have "X = base_vals r @
          [(''furnishingstatus_furnished'', if furnishingstatus r = ''Furnished'' then 1 else 0),
           (''furnishingstatus_semi-furnished'',
            if furnishingstatus r = ''Semi-Furnished'' then 1 else 0)]"
    by (simp add: build_vals_onehot)
  then show ?thesis by (simp add: base_vals_def columns_def)
qed

lemma build_vals_total:
  assumes "furnishingstatus r \<in> set furnishing_options"
  shows "\<exists>X. build_vals ef r = Inr X"
proof (cases "label_mode ef (base_vals r)")
  case True
  with fs_map_options [OF assms] show ?thesis by (auto simp: build_vals_label)
next
  case False
  then show ?thesis by (simp add: build_vals_onehot)
qed


subsection \<open>Adding and selecting columns\<close>

lemma in_columns_iff: "c \<in> set (columns X) \<longleftrightarrow> map_of X c \<noteq> None"
  by (simp add: columns_def map_of_eq_None_iff)

lemma columns_add_missing_mono:
  "c \<in> set (columns X) \<Longrightarrow> c \<in> set (columns (add_missing ns X))"
  by (induction ns arbitrary: X) (simp_all add: columns_def)

lemma add_missing_covers: "set ns \<subseteq> set (columns (add_missing ns X))"
proof (induction ns arbitrary: X)
  case Nil
  show ?case by simp
next
  case (Cons c cs)
  let ?X' = "if c \<notin> set (columns X) then X @ [(c, 0)] else X"
  have "c \<in> set (columns ?X')" by (simp add: columns_def)
  then have "c \<in> set (columns (add_missing cs ?X'))"
    by (rule columns_add_missing_mono)
  with Cons.IH [of ?X'] show ?case by simp
qed

lemma add_missing_distinct:
  "distinct (columns X) \<Longrightarrow> distinct (columns (add_missing ns X))"
  by (induction ns arbitrary: X) (auto simp: columns_def)

lemma map_of_add_missing:
  "map_of (add_missing ns X) c =
     (if c \<in> set (columns X) then map_of X c
      else if c \<in> set ns then Some 0 else None)"
proof (induction ns arbitrary: X)
  case Nil
  show ?case by (simp add: in_columns_iff)
next
  case (Cons n ns)
  have "columns (X @ [(n, 0)]) = columns X @ [n]"
    by (simp add: columns_def)
  then show ?case
    by (auto simp: Cons.IH in_columns_iff map_add_def split: option.splits)
qed

text \<open>On a frame without repeated labels a label selects at most one column.\<close>

lemma filter_key_distinct:
  "distinct (columns X) \<Longrightarrow> map_of X c = Some v \<Longrightarrow> filter (\<lambda>p. fst p = c) X = [(c, v)]"
proof (induction X)
  case Nil
  then show ?case by simp
next
  case (Cons p X)
  obtain k w where p: "p = (k, w)" by (cases p)
  show ?case
  proof (cases "k = c")
    case True
    with Cons.prems p have "c \<notin> fst ` set X" and "w = v"
      by (auto simp: columns_def)
    then have "filter (\<lambda>p. fst p = c) X = []"
      by (auto simp: filter_empty_conv)
    with True p \<open>w = v\<close> show ?thesis by simp
  next
    case False
    with Cons p show ?thesis by (simp add: columns_def)
  qed
qed

lemma select_columns_distinct:
  "distinct (columns X) \<Longrightarrow> set ns \<subseteq> set (columns X) \<Longrightarrow>
   select_columns X ns = Inr (map (\<lambda>c. (c, the (map_of X c))) ns)"
proof (induction ns)
  case Nil
  show ?case by simp
next
  case (Cons c cs)
  from Cons.prems have "c \<in> fst ` set X" by (simp add: columns_def)
  then obtain v where v: "map_of X c = Some v"
    by (metis map_of_eq_None_iff not_Some_eq)
  with Cons.prems have "filter (\<lambda>p. fst p = c) X = [(c, v)]"
    by (simp add: filter_key_distinct)
  with Cons v show ?case by simp
qed

lemma align_names_Some:
  assumes "distinct (columns X)"
  shows "align_names (Some ns) X =
           Inr (map (\<lambda>c. (c, case map_of X c of None \<Rightarrow> 0 | Some v \<Rightarrow> v)) ns)"
proof -
  have "select_columns (add_missing ns X) ns
          = Inr (map (\<lambda>c. (c, the (map_of (add_missing ns X) c))) ns)"
    using assms by (intro select_columns_distinct add_missing_distinct add_missing_covers)
  moreover have "the (map_of (add_missing ns X) c) = (case map_of X c of None \<Rightarrow> 0 | Some v \<Rightarrow> v)"
    if "c \<in> set ns" for c
    using that by (auto simp: map_of_add_missing in_columns_iff split: option.splits)
  ultimately show ?thesis by (simp add: align_names_def)
qed

lemma build_features_df_Some:
  assumes "build_vals ef r = Inr X"
  shows "build_features_df ef (Some ns) r =
           Inr (map (\<lambda>c. (c, case map_of X c of None \<Rightarrow> 0 | Some v \<Rightarrow> v)) ns)"
  using assms build_vals_distinct [OF assms]
  by (simp add: build_features_df_def align_names_Some)

subsection \<open>Claims about the aligner\<close>

text \<open>
  C1. For a form whose furnishing status is one of the three options, the aligner builds
  a row; with no expected names that row is its result. The row consists of the 11 base
  columns followed by the single column \<open>furnishingstatus\<close> exactly when the model's
  expected count is 12, and of the 11 base columns followed by the two indicator columns
  exactly when the expected count is anything else, 13 and absent included.
\<close>

theorem encoding_choice:
  assumes "furnishingstatus r \<in> set furnishing_options"
  shows "\<exists>X. build_vals ef r = Inr X \<and> build_features_df ef None r = Inr X
           \<and> length (columns (base_vals r)) = 11
           \<and> (columns X = columns (base_vals r) @ [''furnishingstatus'']) = (ef = Some 12)
           \<and> (columns X = columns (base_vals r) @
                 [''furnishingstatus_furnished'', ''furnishingstatus_semi-furnished''])
               = (ef \<noteq> Some 12)"
proof (cases "ef = Some 12")
  case True
  then have "label_mode ef (base_vals r)" by (simp add: label_mode_iff)
  with fs_map_options [OF assms] obtain code
    where "build_vals ef r = Inr (base_vals r @ [(''furnishingstatus'', code)])"
    by (auto simp: build_vals_label)
  with True show ?thesis
    by (simp add: build_features_df_def align_names_def base_vals_columns)
       (simp add: columns_def)
next
  case False
  then have "\<not> label_mode ef (base_vals r)" by (simp add: label_mode_iff)
  from build_vals_onehot [OF this] False show ?thesis
    by (simp add: build_features_df_def align_names_def base_vals_columns)
       (simp add: columns_def)
qed

theorem encoding_choice_witness:
  "furnishingstatus r0 \<in> set furnishing_options
   \<and> (\<exists>X. build_vals (Some 12) r0 = Inr X \<and> build_features_df (Some 12) None r0 = Inr X
           \<and> columns X = columns (base_vals r0) @ [''furnishingstatus''])
   \<and> (\<exists>X. build_vals (Some 13) r0 = Inr X \<and> build_features_df (Some 13) None r0 = Inr X
           \<and> columns X = columns (base_vals r0) @
                 [''furnishingstatus_furnished'', ''furnishingstatus_semi-furnished''])
   \<and> (\<exists>X. build_vals None r0 = Inr X \<and> build_features_df None None r0 = Inr X
           \<and> columns X = columns (base_vals r0) @
                 [''furnishingstatus_furnished'', ''furnishingstatus_semi-furnished''])"
proof -
  have h: "furnishingstatus r0 \<in> set furnishing_options"
    by (simp add: r0_def furnishing_options_def)
  show ?thesis
    using h encoding_choice [OF h, of "Some 12"] encoding_choice [OF h, of "Some 13"]
      encoding_choice [OF h, of None]
    by auto
qed

text \<open>
  C9. The location entered in the form has no influence on the row: changing only the
  location of the input leaves the aligner's result as it was, for every expected count
  and every list of expected names.
\<close>

theorem location_not_fed_to_model:
  "build_features_df ef names (r\<lparr>location := l\<rparr>) = build_features_df ef names r"
proof -
  have "base_vals (r\<lparr>location := l\<rparr>) = base_vals r"
    by (simp add: base_vals_def)
  then have "build_vals ef (r\<lparr>location := l\<rparr>) = build_vals ef r"
    by (simp add: build_vals_def split: sum.splits)
  then show ?thesis
    by (simp add: build_features_df_def)
qed

text \<open>
  C10. On the one-hot path the row built before any reordering is the 11 base columns
  followed by \<open>furnishingstatus_furnished\<close> and \<open>furnishingstatus_semi-furnished\<close>: 13
  columns with pairwise different names. Both indicators are 0 or 1, and they are never
  both 1.
\<close>

theorem onehot_row_invariant:
  assumes "\<not> label_mode ef (base_vals r)"
  shows "\<exists>f s. build_vals ef r =
             Inr (base_vals r @ [(''furnishingstatus_furnished'', f),
                                 (''furnishingstatus_semi-furnished'', s)])
           \<and> length (base_vals r) = 11
           \<and> length (base_vals r @ [(''furnishingstatus_furnished'', f),
                                 (''furnishingstatus_semi-furnished'', s)]) = 13
           \<and> distinct (columns (base_vals r @ [(''furnishingstatus_furnished'', f),
                                 (''furnishingstatus_semi-furnished'', s)]))
           \<and> f \<in> {0, 1} \<and> s \<in> {0, 1} \<and> \<not> (f = 1 \<and> s = 1)"
  using build_vals_onehot [OF assms]
  by (simp add: base_vals_columns) (simp add: base_vals_def columns_def)

theorem onehot_row_invariant_witness:
  "\<not> label_mode (Some 13) (base_vals r0)
   \<and> build_vals (Some 13) r0 =
       Inr (base_vals r0 @ [(''furnishingstatus_furnished'', 0),
                            (''furnishingstatus_semi-furnished'', 1)])"
proof -
  have h: "\<not> label_mode (Some 13) (base_vals r0)"
    by (simp add: label_mode_iff)
  have f: "furnishingstatus r0 = ''Semi-Furnished''"
    by (simp add: r0_def)
  from onehot_row_invariant [OF h] h show ?thesis
    by (simp add: build_vals_onehot f)
qed

text \<open>
  C2. When the model declares its feature names, the aligner's result has exactly those
  names as its columns, in that order. Each name is paired with the value the row built
  from the form holds for it, and with 0 when the row has no such column; a column of
  that row whose name is not among the expected names does not occur in the result.
\<close>

theorem aligned_columns:
  assumes "furnishingstatus r \<in> set furnishing_options"
  shows "\<exists>X Y. build_vals ef r = Inr X
           \<and> build_features_df ef (Some names) r = Inr Y
           \<and> columns Y = names
           \<and> Y = map (\<lambda>c. (c, if c \<in> set (columns X) then the (map_of X c) else 0)) names
           \<and> (\<forall>c\<in>set names. c \<notin> set (columns X) \<longrightarrow> (c, 0) \<in> set Y)
           \<and> (\<forall>c\<in>set (columns X). c \<notin> set names \<longrightarrow> c \<notin> set (columns Y))"
proof -
  from build_vals_total [OF assms] obtain X where X: "build_vals ef r = Inr X" ..
  let ?Y = "map (\<lambda>c. (c, if c \<in> set (columns X) then the (map_of X c) else 0)) names"
  have val: "(case map_of X c of None \<Rightarrow> 0 | Some v \<Rightarrow> v)
               = (if c \<in> set (columns X) then the (map_of X c) else 0)" for c
    by (auto simp: in_columns_iff)
  have Y: "build_features_df ef (Some names) r = Inr ?Y"
    by (simp add: build_features_df_Some [OF X] val)
  have cols: "columns ?Y = names"
    by (simp add: columns_def comp_def)
  have zero: "\<forall>c\<in>set names. c \<notin> set (columns X) \<longrightarrow> (c, 0) \<in> set ?Y"
    by auto
  have dropped: "\<forall>c\<in>set (columns X). c \<notin> set names \<longrightarrow> c \<notin> set (columns ?Y)"
    by (simp add: cols)
  from X Y cols zero dropped show ?thesis by blast
qed

theorem aligned_columns_witness:
  "furnishingstatus r0 \<in> set furnishing_options
   \<and> build_features_df None (Some [''zone'', ''area'', ''furnishingstatus_furnished'']) r0
       = Inr [(''zone'', 0), (''area'', 1500), (''furnishingstatus_furnished'', 0)]"
proof -
  have h: "furnishingstatus r0 \<in> set furnishing_options"
    by (simp add: r0_def furnishing_options_def)
  have b: "build_vals None r0 =
     Inr [(''area'', 1500), (''bedrooms'', 3), (''bathrooms'', 2), (''stories'', 2),
          (''mainroad'', 1), (''guestroom'', 0), (''basement'', 1), (''hotwaterheating'', 0),
          (''airconditioning'', 1), (''parking'', 1), (''prefarea'', 0),
          (''furnishingstatus_furnished'', 0), (''furnishingstatus_semi-furnished'', 1)]"
    by (simp add: build_vals_def label_mode_def base_vals_def r0_def yn_def)
  from aligned_columns [OF h, of None "[''zone'', ''area'', ''furnishingstatus_furnished'']"]
  show ?thesis using h by (simp add: b columns_def)
qed

text \<open>
  C8. The aligner reads nothing but the form values and the two attributes of the
  model: for given values of these it yields a row, and every run on the same values
  yields that same row.
\<close>

theorem aligner_deterministic:
  assumes "furnishingstatus r \<in> set furnishing_options"
  shows "\<exists>!X. build_features_df ef names r = Inr X"
proof -
  from build_vals_total [OF assms] obtain X where X: "build_vals ef r = Inr X" ..
  show ?thesis
  proof (cases names)
    case None
    with X show ?thesis by (simp add: build_features_df_def align_names_def)
  next
    case (Some ns)
    with build_features_df_Some [OF X, of ns] show ?thesis by simp
  qed
qed

theorem aligner_deterministic_witness:
  "furnishingstatus r0 \<in> set furnishing_options
   \<and> (\<exists>!X. build_features_df (Some 12) (Some [''area'', ''furnishingstatus'']) r0 = Inr X)"
proof -
  have h: "furnishingstatus r0 \<in> set furnishing_options"
    by (simp add: r0_def furnishing_options_def)
  from aligner_deterministic [OF h] h show ?thesis by blast
qed



section \<open>Properties of the two handlers\<close>

subsection \<open>The Predict button\<close>

lemma predict_clicked_history:
  "history (predict_clicked predict fmt r X w) =
     (case predict X of
        Inl e \<Rightarrow> history w
      | Inr pred \<Rightarrow>
          (case fmt pred of
             Inl e \<Rightarrow> history w
           | Inr price \<Rightarrow> history w @
               [\<lparr>Location = py_or (location r) ''Unknown'', Area = area r,
                 Bedrooms = bedrooms r, Bathrooms = bathrooms r, Stories = stories r,
                 Parking = parking r, Predicted_Price = price\<rparr>]))"
  by (simp add: predict_clicked_def split: sum.splits)

text \<open>
  C7. When the row has been built and the model's predict call raises, pressing the
  button shows the error and changes nothing else: the state afterwards is the state
  before with one error notice added, so the history list is the same. Whatever the
  outcome of a run of the Home tab, the history is either unchanged or the old history
  followed by one entry, and the latter only when the button was pressed and the
  prediction and its formatting both succeeded.
\<close>

theorem prediction_failure_keeps_state:
  assumes "build_features_df ef names r = Inr X"
  shows "(predict X = Inl e \<longrightarrow>
            home_tab predict fmt ef names r True w
              = Inr (w\<lparr>shown := shown w @ [PredictError e]\<rparr>)
          \<and> history (w\<lparr>shown := shown w @ [PredictError e]\<rparr>) = history w)
       \<and> (\<exists>w'. home_tab predict fmt ef names r clicked w = Inr w'
            \<and> (history w' = history w
               \<or> clicked \<and> (\<exists>pred price. predict X = Inr pred \<and> fmt pred = Inr price
                    \<and> history w' = history w @
                        [\<lparr>Location = py_or (location r) ''Unknown'', Area = area r,
                          Bedrooms = bedrooms r, Bathrooms = bathrooms r,
                          Stories = stories r, Parking = parking r,
                          Predicted_Price = price\<rparr>])))"
proof -
  have fail: "home_tab predict fmt ef names r True w
              = Inr (w\<lparr>shown := shown w @ [PredictError e]\<rparr>)" if "predict X = Inl e"
    using assms that by (simp add: home_tab_def predict_clicked_def)
  have run: "home_tab predict fmt ef names r clicked w
               = Inr (if clicked then predict_clicked predict fmt r X w else w)"
    using assms by (simp add: home_tab_def)
  have "history (predict_clicked predict fmt r X w) = history w
        \<or> (\<exists>pred price. predict X = Inr pred \<and> fmt pred = Inr price
              \<and> history (predict_clicked predict fmt r X w) = history w @
                        [\<lparr>Location = py_or (location r) ''Unknown'', Area = area r,
                          Bedrooms = bedrooms r, Bathrooms = bathrooms r,
                          Stories = stories r, Parking = parking r,
                          Predicted_Price = price\<rparr>])"
    by (simp add: predict_clicked_history split: sum.splits)
  with fail run show ?thesis by auto
qed

theorem prediction_failure_keeps_state_witness:
  "build_features_df None None r0 = build_vals None r0
   \<and> (\<exists>X. build_features_df None None r0 = Inr X
        \<and> home_tab (\<lambda>X. Inl ''feature mismatch'' :: string + int) (\<lambda>p. Inr ''Rs 0'')
             None None r0 True w0
           = Inr (w0\<lparr>shown := [PredictError ''feature mismatch'']\<rparr>))"
proof -
  have n: "\<not> label_mode None (base_vals r0)"
    by (simp add: label_mode_iff)
  have b: "build_features_df None None r0 = build_vals None r0"
    by (simp add: build_features_df_def align_names_def build_vals_onehot [OF n])
  obtain X where X: "build_features_df None None r0 = Inr X"
    by (simp add: b build_vals_onehot [OF n])
  have s: "shown w0 = []" by (simp add: w0_def)
  from prediction_failure_keeps_state [OF X,
      of "\<lambda>X. Inl ''feature mismatch'' :: string + int" "''feature mismatch''"
         "\<lambda>p. Inr ''Rs 0''" w0 True]
    X b s show ?thesis by simp
qed

subsection \<open>The feedback form\<close>


lemma strip_empty_iff: "strip s = [] \<longleftrightarrow> (\<forall>c\<in>set s. py_isspace c)"
proof
  assume "strip s = []"
  then have "dropWhile py_isspace (rev (dropWhile py_isspace s)) = []"
    by (simp add: strip_def)
  then have "\<forall>c\<in>set (dropWhile py_isspace s). py_isspace c"
    by (simp add: dropWhile_eq_Nil_conv)
  moreover have "\<forall>c\<in>set (takeWhile py_isspace s). py_isspace c"
    by (auto dest: set_takeWhileD)
  moreover have "set s = set (takeWhile py_isspace s) \<union> set (dropWhile py_isspace s)"
    by (metis set_append takeWhile_dropWhile_id)
  ultimately show "\<forall>c\<in>set s. py_isspace c" by blast
next
  assume "\<forall>c\<in>set s. py_isspace c"
  then show "strip s = []"
    by (auto simp: strip_def dest: set_dropWhileD)
qed

lemma load_feedback_cases:
  "load_feedback None = Inr (JArr [])"
  "load_feedback (Some Unparsable) = Inr (JArr [])"
  "load_feedback (Some (Parsed v)) = Inr v"
  by (simp_all add: load_feedback_def open_read_def json_load_def)

lemma load_feedback_Unopenable: "load_feedback (Some Unopenable) = Inl OSError"
  by (simp add: load_feedback_def open_read_def)

text \<open>The only state of the file in which loading raises is the one \<^verbatim>\<open>open\<close> refuses.\<close>

lemma load_feedback_raises_iff:
  "(\<exists>e. load_feedback fs = Inl e) \<longleftrightarrow> fs = Some Unopenable"
proof (cases fs)
  case None
  then show ?thesis by (simp add: load_feedback_cases)
next
  case (Some f)
  then show ?thesis
    by (cases f) (simp_all add: load_feedback_cases load_feedback_Unopenable)
qed

text \<open>
  C6. \<open>load_feedback\<close> does not return for every state of the feedback file. It returns
  the empty list when the file is missing and when the file is opened and is not JSON,
  as the bare \<^verbatim>\<open>except\<close> intends; but for a file that exists and cannot be opened the
  exception of \<^verbatim>\<open>open\<close> on line 34, raised before the \<^verbatim>\<open>try\<close> is entered, leaves the
  function, so that loading the store raises.
\<close>

theorem load_feedback_raises_on_unopenable_file:
  "load_feedback (Some Unopenable) = Inl OSError
   \<and> \<not> (\<forall>fs. \<exists>v. load_feedback fs = Inr v)
   \<and> load_feedback None = Inr (JArr [])
   \<and> load_feedback (Some Unparsable) = Inr (JArr [])"
proof -
  have "\<not> (\<exists>v. load_feedback (Some Unopenable) = Inr v)"
    by (simp add: load_feedback_Unopenable)
  then have "\<not> (\<forall>fs. \<exists>v. load_feedback fs = Inr v)"
    by blast
  then show ?thesis
    by (simp add: load_feedback_Unopenable load_feedback_cases)
qed

text \<open>
  C5. Submitting a feedback text that is empty or consists of whitespace only shows the
  warning and nothing else happens: the feedback file, whatever it held, is the same
  afterwards.
\<close>

theorem empty_feedback_rejected:
  assumes "\<forall>c\<in>set feedback. py_isspace c"
  shows "strip feedback = []
       \<and> feedback_form name rating feedback True now w
           = Inr (w\<lparr>shown := shown w @ [FeedbackWarning]\<rparr>)
       \<and> feedback_json (w\<lparr>shown := shown w @ [FeedbackWarning]\<rparr>) = feedback_json w"
  using assms by (simp add: feedback_form_def strip_empty_iff)

theorem empty_feedback_rejected_witness:
  "strip ''  '' = []
   \<and> feedback_form ''Sidra'' 4 ''  '' True ''2025-01-01 10:00:00'' w0
       = Inr (w0\<lparr>shown := [FeedbackWarning]\<rparr>)
   \<and> feedback_form ''Sidra'' 4 [] True ''2025-01-01 10:00:00'' w0
       = Inr (w0\<lparr>shown := [FeedbackWarning]\<rparr>)"
proof -
  have h: "\<forall>c\<in>set ''  ''. py_isspace c"
    by (simp add: py_isspace_def)
  have e: "\<forall>c\<in>set ''''. py_isspace c"
    by simp
  have s: "shown w0 = []" by (simp add: w0_def)
  from empty_feedback_rejected [OF h, of "''Sidra''" 4 "''2025-01-01 10:00:00''" w0]
    empty_feedback_rejected [OF e, of "''Sidra''" 4 "''2025-01-01 10:00:00''" w0] s
  show ?thesis by simp
qed

text \<open>
  The form calls \<open>load_feedback\<close> outside any \<^verbatim>\<open>try\<close>: on a file that cannot be opened
  the submission ends with the exception of \<^verbatim>\<open>open\<close>, before anything is written.
\<close>

lemma feedback_form_Unopenable:
  assumes "strip feedback \<noteq> []" and "feedback_json w = Some Unopenable"
  shows "feedback_form name rating feedback True now w = Inl OSError"
  using assms by (simp add: feedback_form_def load_feedback_Unopenable)

text \<open>
  A file that parses to something other than a list makes \<^verbatim>\<open>append\<close> fail before
  anything is written; \<open>save_feedback\<close> only ever writes lists.
\<close>

lemma feedback_form_not_a_list:
  assumes "strip feedback \<noteq> []" and "feedback_json w = Some (Parsed (JObj d))"
  shows "feedback_form name rating feedback True now w = Inl AttributeError"
  using assms by (simp add: feedback_form_def load_feedback_cases)



end
